theory Spec2Isabelle
  imports Complex_Main
begin

section \<open>Python values and the wrapped library\<close>

text \<open>
  The program (\<^verbatim>\<open>main2.py\<close>) is orchestration code around two libraries: the
  pretrained-model runtime (tokenizer and generation model) and the page framework
  (widgets and banners). Neither library is part of the program. The methods of the
  model runtime are parameters of the embedding: a record of functions from the object
  a method is called on and its arguments to either the exception it raises or the
  value it returns. The calls of the page framework are recorded as effects, and its
  widgets return what the session holds for them.
  A library call fails by raising an instance of \<^verbatim>\<open>Exception\<close>, the class both
  handlers of the program name; an exception value carries its class name and the text
  \<^verbatim>\<open>str(e)\<close> gives.
\<close>

datatype py_exception = Exception (exc_class: string) (exc_str: string)

type_synonym token = nat

text \<open>Keyword arguments of the tokenizer call (line 29 of the source).\<close>

record encode_kwargs =
  return_tensors :: string
  padding :: bool
  truncation :: bool
  enc_max_length :: int

text \<open>The encoding the tokenizer returns: a batch of id rows and their masks.\<close>

record batch_encoding =
  input_ids :: "token list list"
  attention_mask :: "nat list list"

text \<open>Keyword arguments of \<^verbatim>\<open>model.generate\<close> (lines 32 to 40).\<close>

record generate_kwargs =
  gen_attention_mask :: "nat list list"
  gen_max_length :: int
  num_beams :: nat
  length_penalty :: real
  early_stopping :: bool
  forced_bos_token_id :: token

text \<open>
  A tokenizer object has the two language attributes the program assigns, the table
  of language markers the program reads, and its vocabulary, which the program never
  looks into. A model object is its weights, equally opaque.
\<close>

record 'v mbart_tokenizer =
  src_lang :: string
  tgt_lang :: string
  lang_code_to_id :: "string \<rightharpoonup> token"
  vocab :: 'v

record 'w mbart_model =
  weights :: 'w

text \<open>
  The methods of the model runtime. The two \<^verbatim>\<open>from_pretrained\<close> loaders depend on
  the environment (network, local files), so one script run may see another record
  than the run before it.
\<close>

record ('v, 'w) transformers =
  tokenizer_from_pretrained :: "string \<Rightarrow> py_exception + 'v mbart_tokenizer"
  model_from_pretrained :: "string \<Rightarrow> py_exception + 'w mbart_model"
  tokenizer_call ::
    "'v mbart_tokenizer \<Rightarrow> string \<Rightarrow> encode_kwargs \<Rightarrow> py_exception + batch_encoding"
  generate ::
    "'w mbart_model \<Rightarrow> token list list \<Rightarrow> generate_kwargs \<Rightarrow> py_exception + token list list"
  batch_decode ::
    "'v mbart_tokenizer \<Rightarrow> token list list \<Rightarrow> bool \<Rightarrow> py_exception + string list"

text \<open>
  Everything the program does to the outside, in the order it does it: calls into the
  model runtime with their arguments, and calls of the page framework. The call
  \<^verbatim>\<open>translator.translate(input_text, max_length)\<close> of the front end is recorded with
  its two arguments as well. The fixed decorations of the page carry no text; the
  pictographs in two of the banner texts are left out of the strings.
\<close>

datatype effect =
    Tokenizer_from_pretrained string
  | Model_from_pretrained string
  | Tokenizer_call string encode_kwargs
  | Generate "token list list" generate_kwargs
  | Batch_decode "token list list" bool
  | Call_translate string int
  | St_set_page_config
  | St_markdown_css
  | St_title
  | St_markdown_subtitle
  | St_header string
  | St_slider int int int
  | St_columns nat
  | St_subheader string
  | St_text_area
  | St_empty
  | St_button
  | St_spinner string
  | Placeholder_markdown string
  | St_success string
  | St_warning string
  | St_error string
  | St_markdown_rule
  | St_markdown_about

section \<open>The translator class\<close>

text \<open>
  \<^verbatim>\<open>EnglishToRomanUrduTranslator\<close>: an attribute that has not been assigned yet is
  \<open>None\<close>, and reading it raises \<^verbatim>\<open>AttributeError\<close>.
\<close>

record ('v, 'w) translator =
  model_name :: string
  device :: string
  tokenizer :: "'v mbart_tokenizer option"
  model :: "'w mbart_model option"

definition attribute_error :: "string \<Rightarrow> py_exception" where
  "attribute_error a =
     Exception ''AttributeError''
       ([CHR 0x27] @ ''EnglishToRomanUrduTranslator'' @ [CHR 0x27] @
        '' object has no attribute '' @ [CHR 0x27] @ a @ [CHR 0x27])"

definition key_error :: "string \<Rightarrow> py_exception" where
  "key_error k = Exception ''KeyError'' ([CHR 0x27] @ k @ [CHR 0x27])"

definition index_error :: py_exception where
  "index_error = Exception ''IndexError'' ''list index out of range''"

text \<open>
  \<^verbatim>\<open>load_model\<close> (lines 13 to 23). The object is passed in and returned, since the
  method assigns its attributes one after the other and may raise in between; the
  handler shows the banner and raises the same exception again.
\<close>

definition load_model ::
  "('v, 'w) transformers \<Rightarrow> ('v, 'w) translator \<Rightarrow>
     ('v, 'w) translator \<times> effect list \<times> (py_exception + unit)" where
  "load_model lib self =
     (case tokenizer_from_pretrained lib (model_name self) of
        Inl e \<Rightarrow>
          (self,
           [Tokenizer_from_pretrained (model_name self),
            St_error (''Error loading model: '' @ exc_str e)],
           Inl e)
      | Inr tk \<Rightarrow>
          (let self1 = self\<lparr>tokenizer := Some tk\<rparr> in
           case model_from_pretrained lib (model_name self1) of
             Inl e \<Rightarrow>
               (self1,
                [Tokenizer_from_pretrained (model_name self),
                 Model_from_pretrained (model_name self1),
                 St_error (''Error loading model: '' @ exc_str e)],
                Inl e)
           | Inr md \<Rightarrow>
               (let self2 = self1\<lparr>model := Some md\<rparr>;
                    self3 = self2\<lparr>tokenizer := Some (tk\<lparr>src_lang := ''en_XX''\<rparr>)\<rparr>;
                    self4 = self3\<lparr>tokenizer :=
                              Some (tk\<lparr>src_lang := ''en_XX'', tgt_lang := ''ur_PK''\<rparr>)\<rparr>
                in (self4,
                    [Tokenizer_from_pretrained (model_name self),
                     Model_from_pretrained (model_name self1)],
                    Inr ()))))"

text \<open>\<^verbatim>\<open>__init__\<close> (lines 8 to 11): two attributes, then the load.\<close>

definition translator_init ::
  "('v, 'w) transformers \<Rightarrow> ('v, 'w) translator \<times> effect list \<times> (py_exception + unit)" where
  "translator_init lib =
     load_model lib
       \<lparr>model_name = ''facebook/mbart-large-50-many-to-many-mmt'',
        device = ''cpu'',
        tokenizer = None,
        model = None\<rparr>"

text \<open>
  The constructor call \<^verbatim>\<open>EnglishToRomanUrduTranslator()\<close>: the new object when
  \<^verbatim>\<open>__init__\<close> returns, its exception otherwise (the half-built object is then lost).
\<close>

definition new_translator ::
  "('v, 'w) transformers \<Rightarrow> effect list \<times> (py_exception + ('v, 'w) translator)" where
  "new_translator lib =
     (case translator_init lib of
        (self, tr, Inl e) \<Rightarrow> (tr, Inl e)
      | (self, tr, Inr u) \<Rightarrow> (tr, Inr self))"

text \<open>The keyword arguments the two calls of \<^verbatim>\<open>translate\<close> are given.\<close>

definition tokenizer_kwargs :: "int \<Rightarrow> encode_kwargs" where
  "tokenizer_kwargs max_length =
     \<lparr>return_tensors = ''pt'', padding = True, truncation = True,
      enc_max_length = max_length\<rparr>"

definition generation_kwargs :: "batch_encoding \<Rightarrow> int \<Rightarrow> token \<Rightarrow> generate_kwargs" where
  "generation_kwargs encoded max_length bos =
     \<lparr>gen_attention_mask = attention_mask encoded,
      gen_max_length = max_length,
      num_beams = 4,
      length_penalty = 1.0,
      early_stopping = True,
      forced_bos_token_id = bos\<rparr>"

text \<open>
  The body of the \<^verbatim>\<open>try\<close> block of \<^verbatim>\<open>translate\<close> (lines 28 to 44): the calls made
  so far, and the exception raised or the text returned. Python evaluates the callee
  \<^verbatim>\<open>self.model.generate\<close> before the arguments, so a missing \<^verbatim>\<open>model\<close> attribute is
  met before the lookup of the target-language marker.
\<close>

definition translate_try ::
  "('v, 'w) transformers \<Rightarrow> ('v, 'w) translator \<Rightarrow> string \<Rightarrow> int \<Rightarrow>
     effect list \<times> (py_exception + string)" where
  "translate_try lib self text max_length =
     (case tokenizer self of
        None \<Rightarrow> ([], Inl (attribute_error ''tokenizer''))
      | Some tk \<Rightarrow>
          (let ekw = tokenizer_kwargs max_length
           in case tokenizer_call lib tk text ekw of
             Inl e \<Rightarrow> ([Tokenizer_call text ekw], Inl e)
           | Inr encoded \<Rightarrow>
               (case model self of
                  None \<Rightarrow> ([Tokenizer_call text ekw], Inl (attribute_error ''model''))
                | Some md \<Rightarrow>
                    (case lang_code_to_id tk ''ur_PK'' of
                       None \<Rightarrow> ([Tokenizer_call text ekw], Inl (key_error ''ur_PK''))
                     | Some bos \<Rightarrow>
                         (let gkw = generation_kwargs encoded max_length bos
                          in case generate lib md (input_ids encoded) gkw of
                            Inl e \<Rightarrow>
                              ([Tokenizer_call text ekw,
                                Generate (input_ids encoded) gkw], Inl e)
                          | Inr generated_tokens \<Rightarrow>
                              (case batch_decode lib tk generated_tokens True of
                                 Inl e \<Rightarrow>
                                   ([Tokenizer_call text ekw,
                                     Generate (input_ids encoded) gkw,
                                     Batch_decode generated_tokens True], Inl e)
                               | Inr decoded \<Rightarrow>
                                   (case decoded of
                                      [] \<Rightarrow>
                                        ([Tokenizer_call text ekw,
                                          Generate (input_ids encoded) gkw,
                                          Batch_decode generated_tokens True],
                                         Inl index_error)
                                    | translated_text # rest \<Rightarrow>
                                        ([Tokenizer_call text ekw,
                                          Generate (input_ids encoded) gkw,
                                          Batch_decode generated_tokens True],
                                         Inr translated_text))))))))"

text \<open>
  \<^verbatim>\<open>translate\<close> (lines 25 to 48): the object after the call, the effects, and the
  \<^verbatim>\<open>Optional[str]\<close> result. The handler shows the banner and returns \<^verbatim>\<open>None\<close>.
\<close>

definition translate ::
  "('v, 'w) transformers \<Rightarrow> ('v, 'w) translator \<Rightarrow> string \<Rightarrow> int \<Rightarrow>
     ('v, 'w) translator \<times> effect list \<times> string option" where
  "translate lib self text max_length =
     (case translate_try lib self text max_length of
        (tr, Inr translated_text) \<Rightarrow> (self, tr, Some translated_text)
      | (tr, Inl e) \<Rightarrow>
          (self, tr @ [St_error (''Translation error: '' @ exc_str e)], None))"

section \<open>The front end\<close>

text \<open>
  The page framework runs \<^verbatim>\<open>main\<close> from top to bottom once per user interaction,
  all runs in one server process. What a run reads from the session is the state of its
  three widgets: the slider (\<open>None\<close> while the user has not moved it), the text area
  and whether the button was the interaction that started the run.
\<close>

record session_input =
  slider_widget :: "int option"
  text_area_widget :: string
  button_clicked :: bool

text \<open>
  \<^verbatim>\<open>st.slider(min_value, max_value, value)\<close> returns the stored position, or
  \<^verbatim>\<open>value\<close> for an untouched slider. The widget lets the user pick positions
  between its two bounds only: \<open>slider_widget_ok\<close> is that contract of the framework.
\<close>

definition st_slider :: "int \<Rightarrow> int \<Rightarrow> int \<Rightarrow> int option \<Rightarrow> int" where
  "st_slider min_value max_value val w = (case w of None \<Rightarrow> val | Some v \<Rightarrow> v)"

definition slider_widget_ok :: "int \<Rightarrow> int \<Rightarrow> int option \<Rightarrow> bool" where
  "slider_widget_ok min_value max_value w =
     (case w of None \<Rightarrow> True | Some v \<Rightarrow> min_value \<le> v \<and> v \<le> max_value)"

text \<open>
  \<^verbatim>\<open>@st.cache_resource\<close> (lines 81 to 85): the memo of the server process. A stored
  object is returned as it is, without running the function; a miss runs the function
  and stores what it returns; an exception of the function passes through and stores
  nothing.
\<close>

record ('v, 'w) st_cache =
  cached_translator :: "('v, 'w) translator option"

definition get_translator ::
  "('v, 'w) transformers \<Rightarrow> ('v, 'w) st_cache \<Rightarrow>
     ('v, 'w) st_cache \<times> effect list \<times> (py_exception + ('v, 'w) translator)" where
  "get_translator lib c =
     (case cached_translator c of
        Some t \<Rightarrow> (c, [], Inr t)
      | None \<Rightarrow>
          (case new_translator lib of
             (tr, Inl e) \<Rightarrow> (c, tr, Inl e)
           | (tr, Inr t) \<Rightarrow> (c\<lparr>cached_translator := Some t\<rparr>, tr, Inr t)))"

text \<open>The markup of line 123 around a translation.\<close>

definition translation_box :: "string \<Rightarrow> string" where
  \<open>translation_box translation =
     ''<div class="translation-box">'' @ translation @ ''</div>''\<close>

text \<open>
  \<^verbatim>\<open>main\<close> (lines 50 to 143): the memo after the run, the effects of the run, and
  whether the run ended by an exception. The object \<^verbatim>\<open>translate\<close> is called on is the
  memoized one itself, so what the call leaves of it is what the memo holds afterwards.
  \<^verbatim>\<open>if input_text:\<close> and \<^verbatim>\<open>if translation:\<close> are Python truth tests: a string
  passes when it is not empty, \<^verbatim>\<open>None\<close> does not pass.
\<close>

definition page_head :: "effect list" where
  "page_head = [St_set_page_config, St_markdown_css, St_title, St_markdown_subtitle]"

definition page_widgets :: "effect list" where
  "page_widgets =
     [St_header ''Translation Settings'', St_slider 50 250 128, St_columns 2,
      St_subheader ''English Input'', St_text_area,
      St_subheader ''Roman Urdu Output'', St_empty, St_button]"

definition page_foot :: "effect list" where
  "page_foot = [St_markdown_rule, St_markdown_about]"

definition show_translation :: "string option \<Rightarrow> effect list" where
  "show_translation translation =
     (case translation of
        None \<Rightarrow> []
      | Some t \<Rightarrow>
          (if t \<noteq> [] then
             [Placeholder_markdown (translation_box t),
              St_success ''Translation completed! '']
           else []))"

definition main ::
  "('v, 'w) transformers \<Rightarrow> ('v, 'w) st_cache \<Rightarrow> session_input \<Rightarrow>
     ('v, 'w) st_cache \<times> effect list \<times> (py_exception + unit)" where
  "main lib c inp =
     (case get_translator lib c of
        (c1, tr1, Inl e) \<Rightarrow> (c1, page_head @ tr1, Inl e)
      | (c1, tr1, Inr translator) \<Rightarrow>
          (let max_length = st_slider 50 250 128 (slider_widget inp);
               input_text = text_area_widget inp
           in if button_clicked inp then
                (if input_text \<noteq> [] then
                   (case translate lib translator input_text max_length of
                      (translator1, tr2, translation) \<Rightarrow>
                        (c1\<lparr>cached_translator := Some translator1\<rparr>,
                         page_head @ tr1 @ page_widgets @
                         [St_spinner ''Translating...'',
                          Call_translate input_text max_length] @ tr2 @
                         show_translation translation @ page_foot,
                         Inr ()))
                 else
                   (c1,
                    page_head @ tr1 @ page_widgets @
                    [St_warning '' Please enter some text to translate''] @ page_foot,
                    Inr ()))
              else (c1, page_head @ tr1 @ page_widgets @ page_foot, Inr ())))"

text \<open>
  The runs of one server process, one after the other: each run has its own view of the
  model runtime and its own widget state, and starts from the memo the run before left.
\<close>

fun script_runs ::
  "('v, 'w) st_cache \<Rightarrow> (('v, 'w) transformers \<times> session_input) list \<Rightarrow>
     ('v, 'w) st_cache \<times> effect list" where
  "script_runs c [] = (c, [])"
| "script_runs c ((lib, inp) # rs) =
     (case main lib c inp of
        (c1, tr, out) \<Rightarrow>
          (case script_runs c1 rs of (c2, tr2) \<Rightarrow> (c2, tr @ tr2)))"

section \<open>Reading a trace of effects\<close>

definition is_load_step :: "effect \<Rightarrow> bool" where
  "is_load_step e = (case e of Tokenizer_from_pretrained n \<Rightarrow> True | _ \<Rightarrow> False)"

definition is_load_error :: "effect \<Rightarrow> bool" where
  "is_load_error e =
     (case e of St_error m \<Rightarrow> take 21 m = ''Error loading model: '' | _ \<Rightarrow> False)"

definition is_generate :: "effect \<Rightarrow> bool" where
  "is_generate e = (case e of Generate ids kw \<Rightarrow> True | _ \<Rightarrow> False)"

definition is_call_translate :: "effect \<Rightarrow> bool" where
  "is_call_translate e = (case e of Call_translate t m \<Rightarrow> True | _ \<Rightarrow> False)"

definition is_output_update :: "effect \<Rightarrow> bool" where
  "is_output_update e =
     (case e of Placeholder_markdown h \<Rightarrow> True | St_success m \<Rightarrow> True | _ \<Rightarrow> False)"

definition is_warning :: "effect \<Rightarrow> bool" where
  "is_warning e = (case e of St_warning m \<Rightarrow> True | _ \<Rightarrow> False)"

definition is_slider :: "effect \<Rightarrow> bool" where
  "is_slider e = (case e of St_slider lo hi v \<Rightarrow> True | _ \<Rightarrow> False)"

definition is_translation_error :: "effect \<Rightarrow> bool" where
  "is_translation_error e =
     (case e of St_error m \<Rightarrow> take 19 m = ''Translation error: '' | _ \<Rightarrow> False)"

definition is_translate_step :: "effect \<Rightarrow> bool" where
  "is_translate_step e =
     (case e of
        Call_translate t m \<Rightarrow> True
      | Tokenizer_call t kw \<Rightarrow> True
      | Generate ids kw \<Rightarrow> True
      | Batch_decode rows skip \<Rightarrow> True
      | _ \<Rightarrow> False)"

definition load_steps :: "effect list \<Rightarrow> nat" where
  "load_steps tr = length (filter is_load_step tr)"

definition load_failures :: "effect list \<Rightarrow> nat" where
  "load_failures tr = length (filter is_load_error tr)"

section \<open>The tokenizer class the program loads\<close>

text \<open>
  Lines 2 and 16 load the tokenizer with the class \<^verbatim>\<open>MBartTokenizer\<close>. The keys of the
  table \<^verbatim>\<open>lang_code_to_id\<close> of an object of that class are the language codes the
  class itself lists, these twenty-five, whatever checkpoint the vocabulary comes from;
  the ids depend on the size of the vocabulary. \<open>loads_mbart_tokenizer\<close> says of a
  runtime that the tokenizers its loader returns are of that class.
\<close>

definition fairseq_language_codes :: "string list" where
  "fairseq_language_codes =
     [''ar_AR'', ''cs_CZ'', ''de_DE'', ''en_XX'', ''es_XX'', ''et_EE'', ''fi_FI'',
      ''fr_XX'', ''gu_IN'', ''hi_IN'', ''it_IT'', ''ja_XX'', ''kk_KZ'', ''ko_KR'',
      ''lt_LT'', ''lv_LV'', ''my_MM'', ''ne_NP'', ''nl_XX'', ''ro_RO'', ''ru_RU'',
      ''si_LK'', ''tr_TR'', ''vi_VN'', ''zh_CN'']"

definition loads_mbart_tokenizer :: "('v, 'w) transformers \<Rightarrow> bool" where
  "loads_mbart_tokenizer lib =
     (\<forall>n tk. tokenizer_from_pretrained lib n = Inr tk \<longrightarrow>
        dom (lang_code_to_id tk) = set fairseq_language_codes)"

text \<open>
  A translator whose tokenizer, if it has one, has no marker for \<^verbatim>\<open>ur_PK\<close> in its
  table, and a memo that holds no other translator.
\<close>

definition unmarked :: "('v, 'w) translator \<Rightarrow> bool" where
  "unmarked t =
     (case tokenizer t of None \<Rightarrow> True | Some tk \<Rightarrow> lang_code_to_id tk ''ur_PK'' = None)"


section \<open>A small model runtime to run the program on\<close>

text \<open>
  One token per character of the text, truncated to the bound; generation answers the
  forced first token followed by the input row, cut at its cap, and refuses a cap that
  is not positive; decoding drops the ids above the character range when asked to skip
  the special tokens.
\<close>

definition demo_tokenizer :: "unit mbart_tokenizer" where
  "demo_tokenizer =
     \<lparr>src_lang = ''en_XX'', tgt_lang = [],
      lang_code_to_id = [''en_XX'' \<mapsto> 250004, ''ur_PK'' \<mapsto> 250049],
      vocab = ()\<rparr>"

definition demo_decode_row :: "bool \<Rightarrow> token list \<Rightarrow> string" where
  "demo_decode_row skip row =
     map char_of (if skip then filter (\<lambda>t. t < 256) row else row)"

definition demo_lib :: "(unit, unit) transformers" where
  "demo_lib =
     \<lparr>tokenizer_from_pretrained = (\<lambda>n. Inr demo_tokenizer),
      model_from_pretrained = (\<lambda>n. Inr \<lparr>weights = ()\<rparr>),
      tokenizer_call = (\<lambda>tk text kw.
         Inr \<lparr>input_ids = [take (nat (enc_max_length kw)) (map of_char text)],
              attention_mask = [replicate (min (nat (enc_max_length kw)) (length text)) 1]\<rparr>),
      generate = (\<lambda>md ids kw.
         if gen_max_length kw \<le> 0 then Inl (Exception ''ValueError'' ''max_length'')
         else Inr [take (nat (gen_max_length kw)) (forced_bos_token_id kw # concat ids)]),
      batch_decode = (\<lambda>tk seqs skip. Inr (map (demo_decode_row skip) seqs))\<rparr>"

text \<open>The same runtime with the model repository out of reach.\<close>

definition offline_lib :: "(unit, unit) transformers" where
  "offline_lib =
     demo_lib\<lparr>tokenizer_from_pretrained :=
                (\<lambda>n. Inl (Exception ''OSError'' ''connection failed''))\<rparr>"

text \<open>The same runtime with a model that answers the forced marker and nothing else.\<close>

definition silent_lib :: "(unit, unit) transformers" where
  "silent_lib =
     demo_lib\<lparr>generate := (\<lambda>md ids kw. Inr [[forced_bos_token_id kw]])\<rparr>"

definition demo_translator :: "(unit, unit) translator" where
  "demo_translator =
     \<lparr>model_name = ''facebook/mbart-large-50-many-to-many-mmt'',
      device = ''cpu'',
      tokenizer = Some (demo_tokenizer\<lparr>src_lang := ''en_XX'', tgt_lang := ''ur_PK''\<rparr>),
      model = Some \<lparr>weights = ()\<rparr>\<rparr>"

definition empty_cache :: "(unit, unit) st_cache" where
  "empty_cache = \<lparr>cached_translator = None\<rparr>"

definition demo_cache :: "(unit, unit) st_cache" where
  "demo_cache = \<lparr>cached_translator = Some demo_translator\<rparr>"

text \<open>
  The same runtime with the loader of the source: a tokenizer of the class
  \<^verbatim>\<open>MBartTokenizer\<close>, its table numbered from 250001 as with a vocabulary of 250000
  pieces, and the translator \<^verbatim>\<open>__init__\<close> builds from it.
\<close>

definition mbart_tokenizer :: "unit mbart_tokenizer" where
  "mbart_tokenizer =
     \<lparr>src_lang = ''en_XX'', tgt_lang = [],
      lang_code_to_id = map_of (zip fairseq_language_codes [250001 ..< 250026]),
      vocab = ()\<rparr>"

definition mbart_lib :: "(unit, unit) transformers" where
  "mbart_lib = demo_lib\<lparr>tokenizer_from_pretrained := (\<lambda>n. Inr mbart_tokenizer)\<rparr>"

definition mbart_translator :: "(unit, unit) translator" where
  "mbart_translator =
     \<lparr>model_name = ''facebook/mbart-large-50-many-to-many-mmt'',
      device = ''cpu'',
      tokenizer = Some (mbart_tokenizer\<lparr>src_lang := ''en_XX'', tgt_lang := ''ur_PK''\<rparr>),
      model = Some \<lparr>weights = ()\<rparr>\<rparr>"

section \<open>What the calls leave in the trace\<close>

lemma translate_keeps_self: "fst (translate lib self text ml) = self"
  by (simp add: translate_def split: prod.splits sum.splits)

lemma translate_handler:
  "translate_try lib self text ml = (tr, Inl e) \<Longrightarrow>
   translate lib self text ml =
     (self, tr @ [St_error (''Translation error: '' @ exc_str e)], None)"
  by (simp add: translate_def)

lemma translate_try_effects:
  "translate_try lib self text ml = (tr, out) \<Longrightarrow> e \<in> set tr \<Longrightarrow>
     (\<exists>kw. e = Tokenizer_call text kw) \<or> (\<exists>ids kw. e = Generate ids kw) \<or>
     (\<exists>rows. e = Batch_decode rows True)"
  by (auto simp: translate_try_def Let_def split: option.splits sum.splits list.splits)

lemma translate_try_order:
  assumes "translate_try lib self text max_length = (tr, out)"
  shows "\<exists>ids gkw generated.
           (tr = [] \<or> tr = [Tokenizer_call text (tokenizer_kwargs max_length)]
            \<or> tr = [Tokenizer_call text (tokenizer_kwargs max_length), Generate ids gkw]
            \<or> tr = [Tokenizer_call text (tokenizer_kwargs max_length), Generate ids gkw,
                     Batch_decode generated True])
         \<and> ((\<exists>s. out = Inr s) \<longrightarrow>
              tr = [Tokenizer_call text (tokenizer_kwargs max_length), Generate ids gkw,
                    Batch_decode generated True])"
  using assms
  by (auto simp: translate_try_def Let_def split: option.splits sum.splits list.splits)

lemma translate_effects:
  assumes "translate lib self text ml = (self1, tr, r)" and "e \<in> set tr"
  shows "(\<exists>kw. e = Tokenizer_call text kw) \<or> (\<exists>ids kw. e = Generate ids kw) \<or>
     (\<exists>rows. e = Batch_decode rows True) \<or>
     (\<exists>m. e = St_error (''Translation error: '' @ m))"
proof (cases "translate_try lib self text ml")
  case (Pair tr0 out)
  show ?thesis
  proof (cases out)
    case (Inl ex)
    with Pair assms have "tr = tr0 @ [St_error (''Translation error: '' @ exc_str ex)]"
      by (simp add: translate_def)
    with assms(2) have "e \<in> set tr0 \<or> e = St_error (''Translation error: '' @ exc_str ex)"
      by auto
    then show ?thesis using translate_try_effects [OF Pair] by blast
  next
    case (Inr s)
    with Pair assms have "tr = tr0" by (simp add: translate_def)
    then show ?thesis using translate_try_effects [OF Pair] assms(2) by blast
  qed
qed

lemma new_translator_effects:
  "new_translator lib = (tr, out) \<Longrightarrow> e \<in> set tr \<Longrightarrow>
     (\<exists>n. e = Tokenizer_from_pretrained n) \<or> (\<exists>n. e = Model_from_pretrained n) \<or>
     (\<exists>m. e = St_error (''Error loading model: '' @ m))"
  by (auto simp: new_translator_def translator_init_def load_model_def Let_def
      split: sum.splits prod.splits)

lemma get_translator_effects:
  "get_translator lib c = (c1, tr, out) \<Longrightarrow> e \<in> set tr \<Longrightarrow>
     (\<exists>n. e = Tokenizer_from_pretrained n) \<or> (\<exists>n. e = Model_from_pretrained n) \<or>
     (\<exists>m. e = St_error (''Error loading model: '' @ m))"
  by (auto simp: get_translator_def split: option.splits prod.splits sum.splits
      dest: new_translator_effects)

section \<open>Evaluating the program on the small runtime\<close>

lemmas demo_runtime =
  demo_lib_def demo_translator_def demo_tokenizer_def demo_decode_row_def
  silent_lib_def offline_lib_def empty_cache_def demo_cache_def
  char_of_def bit_Suc_0_iff

lemmas translate_unfold =
  translate_def translate_try_def tokenizer_kwargs_def generation_kwargs_def

lemmas main_unfold =
  main_def get_translator_def new_translator_def translator_init_def load_model_def
  st_slider_def show_translation_def translation_box_def Let_def

section \<open>The translation call\<close>

text \<open>
  What \<^verbatim>\<open>translate\<close> does when every step returns, which needs a tokenizer whose table
  holds a marker for \<^verbatim>\<open>ur_PK\<close>: it tokenizes the text with padding and truncation to
  \<^verbatim>\<open>max_length\<close>; it runs generation with beam width 4, length penalty 1.0, early
  stopping, the cap \<^verbatim>\<open>max_length\<close> and the first generated token forced to that marker;
  it decodes the generated rows with the special tokens skipped; and it returns the first
  decoded candidate. On every path the calls made are an initial part of these three, in
  this order (\<open>translate_try_order\<close>).
\<close>

lemma translate_steps:
  assumes "tokenizer self = Some tk"
    and "model self = Some md"
    and "lang_code_to_id tk ''ur_PK'' = Some urdu"
    and "tokenizer_call lib tk text
           \<lparr>return_tensors = ''pt'', padding = True, truncation = True,
            enc_max_length = max_length\<rparr> = Inr encoded"
    and "generate lib md (input_ids encoded)
           \<lparr>gen_attention_mask = attention_mask encoded, gen_max_length = max_length,
            num_beams = 4, length_penalty = 1, early_stopping = True,
            forced_bos_token_id = urdu\<rparr> = Inr generated"
    and "batch_decode lib tk generated True = Inr (candidate # others)"
  shows "translate lib self text max_length =
           (self,
            [Tokenizer_call text
               \<lparr>return_tensors = ''pt'', padding = True, truncation = True,
                enc_max_length = max_length\<rparr>,
             Generate (input_ids encoded)
               \<lparr>gen_attention_mask = attention_mask encoded, gen_max_length = max_length,
                num_beams = 4, length_penalty = 1, early_stopping = True,
                forced_bos_token_id = urdu\<rparr>,
             Batch_decode generated True],
            Some candidate)"
  using assms by (simp add: translate_unfold)

lemma translate_steps_demo:
  "translate demo_lib demo_translator ''Hi'' 128 =
     (demo_translator,
      [Tokenizer_call ''Hi''
         \<lparr>return_tensors = ''pt'', padding = True, truncation = True,
          enc_max_length = 128\<rparr>,
       Generate [[72, 105]]
         \<lparr>gen_attention_mask = [[1, 1]], gen_max_length = 128,
          num_beams = 4, length_penalty = 1, early_stopping = True,
          forced_bos_token_id = 250049\<rparr>,
       Batch_decode [[250049, 72, 105]] True],
      Some ''Hi'')"
proof -
  have tk: "tokenizer demo_translator =
      Some (demo_tokenizer\<lparr>src_lang := ''en_XX'', tgt_lang := ''ur_PK''\<rparr>)"
    by (simp add: demo_translator_def)
  have md: "model demo_translator = Some \<lparr>weights = ()\<rparr>"
    by (simp add: demo_translator_def)
  have urdu: "lang_code_to_id (demo_tokenizer\<lparr>src_lang := ''en_XX'', tgt_lang := ''ur_PK''\<rparr>)
      ''ur_PK'' = Some 250049"
    by (simp add: demo_tokenizer_def)
  have enc: "tokenizer_call demo_lib (demo_tokenizer\<lparr>src_lang := ''en_XX'', tgt_lang := ''ur_PK''\<rparr>)
      ''Hi'' \<lparr>return_tensors = ''pt'', padding = True, truncation = True,
            enc_max_length = 128\<rparr> = Inr \<lparr>input_ids = [[72, 105]], attention_mask = [[1, 1]]\<rparr>"
    by (simp add: demo_lib_def)
  have gen: "generate demo_lib \<lparr>weights = ()\<rparr>
      (input_ids \<lparr>input_ids = [[72, 105]], attention_mask = [[1, 1]]\<rparr>)
      \<lparr>gen_attention_mask = attention_mask \<lparr>input_ids = [[72, 105]], attention_mask = [[1, 1]]\<rparr>,
       gen_max_length = 128, num_beams = 4, length_penalty = 1, early_stopping = True,
       forced_bos_token_id = 250049\<rparr> = Inr [[250049, 72, 105]]"
    by (simp add: demo_lib_def)
  have dec: "batch_decode demo_lib (demo_tokenizer\<lparr>src_lang := ''en_XX'', tgt_lang := ''ur_PK''\<rparr>)
      [[250049, 72, 105]] True = Inr (''Hi'' # [])"
    by (simp add: demo_runtime)
  show ?thesis
    using translate_steps [OF tk md urdu enc gen dec] by simp
qed

text \<open>
  Claim C2. When tokenization, generation or decoding raises an exception, \<^verbatim>\<open>translate\<close>
  catches it: its last effect is the error banner with the text of the exception, it
  returns \<^verbatim>\<open>None\<close>, the translator object is the one it was called on, and any later
  request is answered as it would have been without the failed one. The five cases of
  the hypothesis are the three calls into the runtime and the two exceptions the block
  raises by itself: the \<^verbatim>\<open>KeyError\<close> of a table without the marker of \<^verbatim>\<open>ur_PK\<close> and
  the \<^verbatim>\<open>IndexError\<close> of an empty list of candidates.
\<close>

theorem translate_catches:
  assumes "tokenizer self = Some tk" and "model self = Some md"
    and "tokenizer_call lib tk text (tokenizer_kwargs max_length) = Inl e
       \<or> (\<exists>encoded bos.
            tokenizer_call lib tk text (tokenizer_kwargs max_length) = Inr encoded
          \<and> lang_code_to_id tk ''ur_PK'' = Some bos
          \<and> generate lib md (input_ids encoded)
                (generation_kwargs encoded max_length bos) = Inl e)
       \<or> (\<exists>encoded bos generated.
            tokenizer_call lib tk text (tokenizer_kwargs max_length) = Inr encoded
          \<and> lang_code_to_id tk ''ur_PK'' = Some bos
          \<and> generate lib md (input_ids encoded)
                (generation_kwargs encoded max_length bos) = Inr generated
          \<and> batch_decode lib tk generated True = Inl e)
       \<or> (\<exists>encoded.
            tokenizer_call lib tk text (tokenizer_kwargs max_length) = Inr encoded
          \<and> lang_code_to_id tk ''ur_PK'' = None \<and> e = key_error ''ur_PK'')
       \<or> (\<exists>encoded bos generated.
            tokenizer_call lib tk text (tokenizer_kwargs max_length) = Inr encoded
          \<and> lang_code_to_id tk ''ur_PK'' = Some bos
          \<and> generate lib md (input_ids encoded)
                (generation_kwargs encoded max_length bos) = Inr generated
          \<and> batch_decode lib tk generated True = Inr [] \<and> e = index_error)"
  shows "(\<exists>tr. translate lib self text max_length =
              (self, tr @ [St_error (''Translation error: '' @ exc_str e)], None))
       \<and> (\<forall>text' max_length'.
            translate lib (fst (translate lib self text max_length)) text' max_length' =
            translate lib self text' max_length')"
proof -
  from assms have "\<exists>tr. translate_try lib self text max_length = (tr, Inl e)"
    by (auto simp: translate_try_def Let_def)
  then obtain tr where "translate_try lib self text max_length = (tr, Inl e)" ..
  then have "translate lib self text max_length =
      (self, tr @ [St_error (''Translation error: '' @ exc_str e)], None)"
    by (rule translate_handler)
  then show ?thesis by (simp add: translate_keeps_self)
qed

theorem translate_catches_witness:
  "(\<exists>tr. translate demo_lib demo_translator ''Hi'' 0 =
       (demo_translator, tr @ [St_error ''Translation error: max_length''], None))
   \<and> translate demo_lib (fst (translate demo_lib demo_translator ''Hi'' 0)) ''Hi'' 128 =
     translate demo_lib demo_translator ''Hi'' 128"
proof -
  have tk: "tokenizer demo_translator =
      Some (demo_tokenizer\<lparr>src_lang := ''en_XX'', tgt_lang := ''ur_PK''\<rparr>)"
    by (simp add: demo_translator_def)
  have md: "model demo_translator = Some \<lparr>weights = ()\<rparr>"
    by (simp add: demo_translator_def)
  have raised:
    "tokenizer_call demo_lib (demo_tokenizer\<lparr>src_lang := ''en_XX'', tgt_lang := ''ur_PK''\<rparr>)
       ''Hi'' (tokenizer_kwargs 0) = Inl (Exception ''ValueError'' ''max_length'')
     \<or> (\<exists>encoded bos.
          tokenizer_call demo_lib (demo_tokenizer\<lparr>src_lang := ''en_XX'', tgt_lang := ''ur_PK''\<rparr>)
            ''Hi'' (tokenizer_kwargs 0) = Inr encoded
        \<and> lang_code_to_id (demo_tokenizer\<lparr>src_lang := ''en_XX'', tgt_lang := ''ur_PK''\<rparr>)
            ''ur_PK'' = Some bos
        \<and> generate demo_lib \<lparr>weights = ()\<rparr> (input_ids encoded)
            (generation_kwargs encoded 0 bos) = Inl (Exception ''ValueError'' ''max_length''))
     \<or> (\<exists>encoded bos generated.
          tokenizer_call demo_lib (demo_tokenizer\<lparr>src_lang := ''en_XX'', tgt_lang := ''ur_PK''\<rparr>)
            ''Hi'' (tokenizer_kwargs 0) = Inr encoded
        \<and> lang_code_to_id (demo_tokenizer\<lparr>src_lang := ''en_XX'', tgt_lang := ''ur_PK''\<rparr>)
            ''ur_PK'' = Some bos
        \<and> generate demo_lib \<lparr>weights = ()\<rparr> (input_ids encoded)
            (generation_kwargs encoded 0 bos) = Inr generated
        \<and> batch_decode demo_lib (demo_tokenizer\<lparr>src_lang := ''en_XX'', tgt_lang := ''ur_PK''\<rparr>)
            generated True = Inl (Exception ''ValueError'' ''max_length''))
     \<or> (\<exists>encoded.
          tokenizer_call demo_lib (demo_tokenizer\<lparr>src_lang := ''en_XX'', tgt_lang := ''ur_PK''\<rparr>)
            ''Hi'' (tokenizer_kwargs 0) = Inr encoded
        \<and> lang_code_to_id (demo_tokenizer\<lparr>src_lang := ''en_XX'', tgt_lang := ''ur_PK''\<rparr>)
            ''ur_PK'' = None
        \<and> Exception ''ValueError'' ''max_length'' = key_error ''ur_PK'')
     \<or> (\<exists>encoded bos generated.
          tokenizer_call demo_lib (demo_tokenizer\<lparr>src_lang := ''en_XX'', tgt_lang := ''ur_PK''\<rparr>)
            ''Hi'' (tokenizer_kwargs 0) = Inr encoded
        \<and> lang_code_to_id (demo_tokenizer\<lparr>src_lang := ''en_XX'', tgt_lang := ''ur_PK''\<rparr>)
            ''ur_PK'' = Some bos
        \<and> generate demo_lib \<lparr>weights = ()\<rparr> (input_ids encoded)
            (generation_kwargs encoded 0 bos) = Inr generated
        \<and> batch_decode demo_lib (demo_tokenizer\<lparr>src_lang := ''en_XX'', tgt_lang := ''ur_PK''\<rparr>)
            generated True = Inr []
        \<and> Exception ''ValueError'' ''max_length'' = index_error)"
    by (simp add: demo_lib_def demo_tokenizer_def tokenizer_kwargs_def generation_kwargs_def)
  from translate_catches [OF tk md raised] show ?thesis by simp
qed

text \<open>
  Claim C10. A call of \<^verbatim>\<open>translate\<close> never changes the translator object: the object
  after the call is the object before it, with the same \<^verbatim>\<open>model_name\<close>, \<^verbatim>\<open>device\<close>,
  \<^verbatim>\<open>tokenizer\<close>, \<^verbatim>\<open>model\<close> and language tags, whether the call returns a text or
  \<^verbatim>\<open>None\<close>. (What the tags of a loaded object are is \<open>new_translator_loaded\<close>.)
\<close>

theorem translate_leaves_handle:
  "fst (translate lib self text max_length) = self
   \<and> model_name (fst (translate lib self text max_length)) = model_name self
   \<and> device (fst (translate lib self text max_length)) = device self
   \<and> tokenizer (fst (translate lib self text max_length)) = tokenizer self
   \<and> model (fst (translate lib self text max_length)) = model self
   \<and> map_option src_lang (tokenizer (fst (translate lib self text max_length))) =
       map_option src_lang (tokenizer self)
   \<and> map_option tgt_lang (tokenizer (fst (translate lib self text max_length))) =
       map_option tgt_lang (tokenizer self)"
  by (simp add: translate_keeps_self)

lemma new_translator_loaded:
  assumes "new_translator lib = (tr, Inr t)"
  shows "model_name t = ''facebook/mbart-large-50-many-to-many-mmt''
       \<and> device t = ''cpu''
       \<and> (\<exists>tk. tokenizer t = Some tk \<and> src_lang tk = ''en_XX'' \<and> tgt_lang tk = ''ur_PK'')
       \<and> (\<exists>md. model t = Some md)"
  using assms
  by (auto simp: new_translator_def translator_init_def load_model_def Let_def
      split: sum.splits prod.splits)

section \<open>The front end: one run\<close>

lemma main_effects_cases:
  "main lib c inp = (c2, tr, out) \<Longrightarrow>
     (\<exists>c1 tr1 e. get_translator lib c = (c1, tr1, Inl e) \<and> c2 = c1 \<and>
                 tr = page_head @ tr1 \<and> out = Inl e)
   \<or> (\<exists>c1 tr1 t. get_translator lib c = (c1, tr1, Inr t) \<and> \<not> button_clicked inp \<and>
                 c2 = c1 \<and> tr = page_head @ tr1 @ page_widgets @ page_foot \<and> out = Inr ())
   \<or> (\<exists>c1 tr1 t. get_translator lib c = (c1, tr1, Inr t) \<and> button_clicked inp \<and>
                 text_area_widget inp = [] \<and> c2 = c1 \<and>
                 tr = page_head @ tr1 @ page_widgets @
                      [St_warning '' Please enter some text to translate''] @ page_foot \<and>
                 out = Inr ())
   \<or> (\<exists>c1 tr1 t t1 tr2 r. get_translator lib c = (c1, tr1, Inr t) \<and> button_clicked inp \<and>
                 text_area_widget inp \<noteq> [] \<and>
                 translate lib t (text_area_widget inp)
                   (st_slider 50 250 128 (slider_widget inp)) = (t1, tr2, r) \<and>
                 c2 = c1\<lparr>cached_translator := Some t1\<rparr> \<and>
                 tr = page_head @ tr1 @ page_widgets @
                      [St_spinner ''Translating...'',
                       Call_translate (text_area_widget inp)
                         (st_slider 50 250 128 (slider_widget inp))] @
                      tr2 @ show_translation r @ page_foot \<and>
                 out = Inr ())"
  by (auto simp: main_def Let_def split: prod.splits sum.splits if_splits)

lemmas trace_tests =
  is_load_step_def is_load_error_def is_generate_def is_call_translate_def
  is_output_update_def is_warning_def is_translate_step_def is_slider_def

lemmas page_parts = page_head_def page_widgets_def page_foot_def

lemma translate_effect_tests:
  assumes "translate lib self text ml = (self1, tr, r)" and "e \<in> set tr"
  shows "\<not> is_call_translate e" and "\<not> is_output_update e" and "\<not> is_warning e"
    and "\<not> is_load_step e" and "\<not> is_load_error e" and "\<not> is_slider e"
  using translate_effects [OF assms]
  by (elim disjE exE; simp add: trace_tests)+

lemma translate_quiet:
  assumes "translate lib self text ml = (self1, tr, r)"
  shows "filter is_call_translate tr = []" and "filter is_output_update tr = []"
    and "filter is_warning tr = []" and "filter is_load_step tr = []"
    and "filter is_load_error tr = []" and "filter is_slider tr = []"
  using translate_effect_tests [OF assms]
  by (simp_all add: filter_empty_conv)

lemma get_translator_effect_tests:
  assumes "get_translator lib c = (c1, tr, out)" and "e \<in> set tr"
  shows "\<not> is_translate_step e" and "\<not> is_call_translate e" and "\<not> is_output_update e"
    and "\<not> is_warning e" and "\<not> is_generate e" and "\<not> is_slider e"
  using get_translator_effects [OF assms]
  by (elim disjE exE; simp add: trace_tests)+

lemma get_translator_quiet:
  assumes "get_translator lib c = (c1, tr, out)"
  shows "filter is_translate_step tr = []" and "filter is_call_translate tr = []"
    and "filter is_output_update tr = []" and "filter is_warning tr = []"
    and "filter is_generate tr = []" and "filter is_slider tr = []"
  using get_translator_effect_tests [OF assms]
  by (simp_all add: filter_empty_conv)

lemma show_translation_quiet:
  "filter is_call_translate (show_translation r) = []"
  "filter is_warning (show_translation r) = []"
  "filter is_load_step (show_translation r) = []"
  "filter is_load_error (show_translation r) = []"
  "filter is_slider (show_translation r) = []"
  "filter is_output_update (show_translation r) = show_translation r"
  by (simp_all add: show_translation_def trace_tests split: option.splits)

lemma page_quiet:
  "filter is_call_translate page_head = []" "filter is_call_translate page_widgets = []"
  "filter is_call_translate page_foot = []"
  "filter is_output_update page_head = []" "filter is_output_update page_widgets = []"
  "filter is_output_update page_foot = []"
  "filter is_warning page_head = []" "filter is_warning page_widgets = []"
  "filter is_warning page_foot = []"
  "filter is_translate_step page_head = []" "filter is_translate_step page_widgets = []"
  "filter is_translate_step page_foot = []"
  "filter is_load_step page_head = []" "filter is_load_step page_widgets = []"
  "filter is_load_step page_foot = []"
  "filter is_load_error page_head = []" "filter is_load_error page_widgets = []"
  "filter is_load_error page_foot = []"
  "filter is_generate page_head = []" "filter is_generate page_widgets = []"
  "filter is_generate page_foot = []"
  "filter is_slider page_head = []" "filter is_slider page_widgets = [St_slider 50 250 128]"
  "filter is_slider page_foot = []"
  by (simp_all add: page_parts trace_tests)

lemma main_call_translate:
  assumes "main lib c inp = (c2, tr, out)"
  shows "filter is_call_translate tr = [] \<or>
         (text_area_widget inp \<noteq> [] \<and>
          filter is_call_translate tr =
            [Call_translate (text_area_widget inp) (st_slider 50 250 128 (slider_widget inp))])"
  using main_effects_cases [OF assms]
  by (elim disjE exE conjE)
     (simp_all add: page_quiet get_translator_quiet translate_quiet show_translation_quiet
        is_call_translate_def)

lemma main_call_translate_mem:
  assumes "Call_translate text m \<in> set (fst (snd (main lib c inp)))"
  shows "text = text_area_widget inp \<and> text \<noteq> [] \<and>
         m = st_slider 50 250 128 (slider_widget inp)"
proof -
  obtain c2 tr out where m: "main lib c inp = (c2, tr, out)" by (cases "main lib c inp")
  from assms m have mem: "Call_translate text m \<in> set (filter is_call_translate tr)"
    by (simp add: is_call_translate_def)
  from main_call_translate [OF m] show ?thesis
  proof (elim disjE conjE)
    assume "filter is_call_translate tr = []"
    with mem show ?thesis by (simp del: set_filter)
  next
    assume ne: "text_area_widget inp \<noteq> []"
      and eq: "filter is_call_translate tr =
        [Call_translate (text_area_widget inp) (st_slider 50 250 128 (slider_widget inp))]"
    from mem have "Call_translate text m \<in>
        set [Call_translate (text_area_widget inp) (st_slider 50 250 128 (slider_widget inp))]"
      unfolding eq .
    with ne show ?thesis by simp
  qed
qed

lemma never_translates_empty:
  "Call_translate [] m \<notin> set (fst (snd (main lib c inp)))"
  using main_call_translate_mem [of "[]" m lib c inp] by blast

lemma main_slider:
  assumes "main lib c inp = (c2, tr, out)"
  shows "(out = Inr () \<and> filter is_slider tr = [St_slider 50 250 128]) \<or>
         ((\<exists>e. out = Inl e) \<and> filter is_slider tr = [])"
  using main_effects_cases [OF assms]
  by (elim disjE exE conjE)
     (simp_all add: page_quiet get_translator_quiet translate_quiet show_translation_quiet
        is_slider_def)

lemma main_output_update:
  assumes "get_translator lib c = (c1, tr1, Inr t)" and "button_clicked inp"
    and "text_area_widget inp \<noteq> []"
    and "translate lib t (text_area_widget inp)
           (st_slider 50 250 128 (slider_widget inp)) = (t1, tr2, r)"
  shows "main lib c inp =
           (c1\<lparr>cached_translator := Some t1\<rparr>,
            page_head @ tr1 @ page_widgets @
            [St_spinner ''Translating...'',
             Call_translate (text_area_widget inp)
               (st_slider 50 250 128 (slider_widget inp))] @
            tr2 @ show_translation r @ page_foot,
            Inr ())"
    and "filter is_output_update (fst (snd (main lib c inp))) = show_translation r"
    and "filter is_call_translate (fst (snd (main lib c inp))) =
           [Call_translate (text_area_widget inp)
              (st_slider 50 250 128 (slider_widget inp))]"
proof -
  show m: "main lib c inp =
           (c1\<lparr>cached_translator := Some t1\<rparr>,
            page_head @ tr1 @ page_widgets @
            [St_spinner ''Translating...'',
             Call_translate (text_area_widget inp)
               (st_slider 50 250 128 (slider_widget inp))] @
            tr2 @ show_translation r @ page_foot,
            Inr ())"
    using assms by (simp add: main_def Let_def)
  show "filter is_output_update (fst (snd (main lib c inp))) = show_translation r"
    by (simp add: m page_quiet get_translator_quiet [OF assms(1)] translate_quiet [OF assms(4)]
        show_translation_quiet is_output_update_def)
  show "filter is_call_translate (fst (snd (main lib c inp))) =
           [Call_translate (text_area_widget inp)
              (st_slider 50 250 128 (slider_widget inp))]"
    by (simp add: m page_quiet get_translator_quiet [OF assms(1)] translate_quiet [OF assms(4)]
        show_translation_quiet is_call_translate_def)
qed

text \<open>
  Claim C4, as the program has it. When the translate action is activated with empty
  input text, in a run that obtained the translator object, the front end shows the
  warning and makes no translation call; and no run ever calls \<^verbatim>\<open>translate\<close> with the
  empty text. The test of line 117 is the truth test of the string, so a blank text (white
  space only) is not intercepted: it is translated like any other text.
\<close>

theorem empty_input_warns:
  "(button_clicked inp \<and> text_area_widget inp = [] \<and>
    get_translator lib c = (c1, tr1, Inr t) \<longrightarrow>
      main lib c inp =
        (c1,
         page_head @ tr1 @ page_widgets @
         [St_warning '' Please enter some text to translate''] @ page_foot,
         Inr ())
    \<and> filter is_warning (fst (snd (main lib c inp))) =
        [St_warning '' Please enter some text to translate'']
    \<and> filter is_translate_step (fst (snd (main lib c inp))) = [])
   \<and> Call_translate [] m \<notin> set (fst (snd (main lib c inp)))"
proof -
  have "main lib c inp =
        (c1,
         page_head @ tr1 @ page_widgets @
         [St_warning '' Please enter some text to translate''] @ page_foot,
         Inr ())
    \<and> filter is_warning (fst (snd (main lib c inp))) =
        [St_warning '' Please enter some text to translate'']
    \<and> filter is_translate_step (fst (snd (main lib c inp))) = []"
    if b: "button_clicked inp" and e: "text_area_widget inp = []"
      and g: "get_translator lib c = (c1, tr1, Inr t)"
  proof -
    have m: "main lib c inp =
        (c1,
         page_head @ tr1 @ page_widgets @
         [St_warning '' Please enter some text to translate''] @ page_foot,
         Inr ())"
      using b e g by (simp add: main_def Let_def)
    show ?thesis
      by (simp add: m page_quiet get_translator_quiet [OF g] is_warning_def
          is_translate_step_def)
  qed
  then show ?thesis using never_translates_empty by blast
qed

theorem empty_input_warns_witness:
  "main demo_lib demo_cache
     \<lparr>slider_widget = None, text_area_widget = [], button_clicked = True\<rparr> =
     (demo_cache,
      page_head @ [] @ page_widgets @
      [St_warning '' Please enter some text to translate''] @ page_foot,
      Inr ())
   \<and> filter is_translate_step (fst (snd (main demo_lib demo_cache
        \<lparr>slider_widget = None, text_area_widget = [], button_clicked = True\<rparr>))) = []
   \<and> Call_translate [] 128 \<notin> set (fst (snd (main demo_lib demo_cache
        \<lparr>slider_widget = None, text_area_widget = [], button_clicked = True\<rparr>)))"
proof -
  have activated:
    "button_clicked \<lparr>slider_widget = None, text_area_widget = [], button_clicked = True\<rparr>
     \<and> text_area_widget \<lparr>slider_widget = None, text_area_widget = [], button_clicked = True\<rparr> = []
     \<and> get_translator demo_lib demo_cache = (demo_cache, [], Inr demo_translator)"
    by (simp add: get_translator_def demo_cache_def)
  from empty_input_warns [where inp = "\<lparr>slider_widget = None, text_area_widget = [],
      button_clicked = True\<rparr>" and lib = demo_lib and c = demo_cache and ?c1.0 = demo_cache
      and ?tr1.0 = "[]" and t = demo_translator and m = 128] activated
  show ?thesis by blast
qed

text \<open>
  A text of one space passes the test of line 117: \<^verbatim>\<open>translate\<close> is called with it and
  no warning is shown.
\<close>

theorem blank_input_is_translated:
  "filter is_call_translate (fst (snd (main demo_lib demo_cache
      \<lparr>slider_widget = None, text_area_widget = '' '', button_clicked = True\<rparr>))) =
     [Call_translate '' '' 128]
   \<and> filter is_warning (fst (snd (main demo_lib demo_cache
      \<lparr>slider_widget = None, text_area_widget = '' '', button_clicked = True\<rparr>))) = []"
  by (simp add: main_unfold demo_runtime translate_unfold page_parts trace_tests)

text \<open>
  Claim C6, as the program has it. On every activation with non-empty input, in a run
  that obtained the translator object, the front end calls \<^verbatim>\<open>translate\<close> once, with the
  text and the slider's value. When the call returns a non-empty text, the front end puts
  that text, inside the styled container, into the output panel and shows the success
  banner; when it returns \<^verbatim>\<open>None\<close> or the empty text, the output panel is not updated
  and no success banner is shown (line 121 is the truth test of the result).
\<close>

theorem front_end_renders:
  assumes "button_clicked inp" and "text_area_widget inp \<noteq> []"
    and "get_translator lib c = (c1, tr1, Inr t)"
    and "translate lib t (text_area_widget inp)
           (st_slider 50 250 128 (slider_widget inp)) = (t1, tr2, r)"
  shows "filter is_call_translate (fst (snd (main lib c inp))) =
           [Call_translate (text_area_widget inp) (st_slider 50 250 128 (slider_widget inp))]
       \<and> (\<forall>s. r = Some s \<and> s \<noteq> [] \<longrightarrow>
             filter is_output_update (fst (snd (main lib c inp))) =
               [Placeholder_markdown (translation_box s),
                St_success ''Translation completed! ''])
       \<and> (r = None \<or> r = Some [] \<longrightarrow>
             filter is_output_update (fst (snd (main lib c inp))) = [])"
  using main_output_update(2,3) [OF assms(3) assms(1) assms(2) assms(4)]
  by (auto simp: show_translation_def)

theorem front_end_renders_witness:
  "filter is_call_translate (fst (snd (main demo_lib demo_cache
      \<lparr>slider_widget = None, text_area_widget = ''Hi'', button_clicked = True\<rparr>))) =
     [Call_translate ''Hi'' 128]
   \<and> filter is_output_update (fst (snd (main demo_lib demo_cache
      \<lparr>slider_widget = None, text_area_widget = ''Hi'', button_clicked = True\<rparr>))) =
     [Placeholder_markdown (translation_box ''Hi''), St_success ''Translation completed! '']"
proof -
  have clicked:
    "button_clicked \<lparr>slider_widget = None, text_area_widget = ''Hi'', button_clicked = True\<rparr>"
    by simp
  have given:
    "text_area_widget \<lparr>slider_widget = None, text_area_widget = ''Hi'', button_clicked = True\<rparr>
       \<noteq> []"
    by simp
  have handle: "get_translator demo_lib demo_cache = (demo_cache, [], Inr demo_translator)"
    by (simp add: get_translator_def demo_cache_def)
  have answer: "translate demo_lib demo_translator
      (text_area_widget \<lparr>slider_widget = None, text_area_widget = ''Hi'', button_clicked = True\<rparr>)
      (st_slider 50 250 128
        (slider_widget \<lparr>slider_widget = None, text_area_widget = ''Hi'', button_clicked = True\<rparr>)) =
      (demo_translator,
       [Tokenizer_call ''Hi'' (tokenizer_kwargs 128),
        Generate [[72, 105]]
          (generation_kwargs \<lparr>input_ids = [[72, 105]], attention_mask = [[1, 1]]\<rparr> 128 250049),
        Batch_decode [[250049, 72, 105]] True],
       Some ''Hi'')"
    by (simp add: st_slider_def demo_runtime translate_unfold)
  from front_end_renders [OF clicked given handle answer] show ?thesis
    by (simp add: st_slider_def)
qed

text \<open>
  A model that generates the forced marker only: the decoded text is empty,
  \<^verbatim>\<open>translate\<close> returns it, and the front end shows nothing.
\<close>

theorem empty_translation_not_rendered:
  "snd (snd (translate silent_lib demo_translator ''Hi'' 128)) = Some []
   \<and> filter is_output_update (fst (snd (main silent_lib demo_cache
      \<lparr>slider_widget = None, text_area_widget = ''Hi'', button_clicked = True\<rparr>))) = []"
  by (simp add: main_unfold demo_runtime translate_unfold page_parts trace_tests)

text \<open>
  Claim C9. The control of \<^verbatim>\<open>max_length\<close> is a slider declared with minimum 50, maximum
  250 and default 128, the only slider of the page. The value passed to \<^verbatim>\<open>translate\<close>
  is the value of that slider: with the framework keeping the slider's position between
  its bounds, it lies in the range from 50 to 250, and it is 128 while the slider has not
  been moved.
\<close>

theorem slider_bounds:
  assumes "slider_widget_ok 50 250 (slider_widget inp)"
  shows "(snd (snd (main lib c inp)) = Inr () \<longrightarrow>
            filter is_slider (fst (snd (main lib c inp))) = [St_slider 50 250 128])
       \<and> (Call_translate input_text m \<in> set (fst (snd (main lib c inp))) \<longrightarrow>
            m = st_slider 50 250 128 (slider_widget inp) \<and> 50 \<le> m \<and> m \<le> 250)
       \<and> (slider_widget inp = None \<and>
          Call_translate input_text m \<in> set (fst (snd (main lib c inp))) \<longrightarrow> m = 128)"
proof -
  obtain c2 tr out where m: "main lib c inp = (c2, tr, out)" by (cases "main lib c inp")
  have range: "50 \<le> st_slider 50 250 128 (slider_widget inp) \<and>
      st_slider 50 250 128 (slider_widget inp) \<le> 250"
    using assms by (simp add: slider_widget_ok_def st_slider_def split: option.splits)
  have dflt: "slider_widget inp = None \<Longrightarrow> st_slider 50 250 128 (slider_widget inp) = 128"
    by (simp add: st_slider_def)
  have "snd (snd (main lib c inp)) = Inr () \<longrightarrow>
      filter is_slider (fst (snd (main lib c inp))) = [St_slider 50 250 128]"
    using main_slider [OF m] by (auto simp: m)
  moreover have "Call_translate input_text m \<in> set (fst (snd (main lib c inp))) \<longrightarrow>
      m = st_slider 50 250 128 (slider_widget inp) \<and> 50 \<le> m \<and> m \<le> 250"
    using main_call_translate_mem [of input_text m lib c inp] range by blast
  moreover have "slider_widget inp = None \<and>
      Call_translate input_text m \<in> set (fst (snd (main lib c inp))) \<longrightarrow> m = 128"
    using main_call_translate_mem [of input_text m lib c inp] dflt by blast
  ultimately show ?thesis by blast
qed

theorem slider_bounds_witness:
  "Call_translate ''Hi'' 250 \<in> set (fst (snd (main demo_lib demo_cache
      \<lparr>slider_widget = Some 250, text_area_widget = ''Hi'', button_clicked = True\<rparr>)))
   \<and> filter is_slider (fst (snd (main demo_lib demo_cache
      \<lparr>slider_widget = Some 250, text_area_widget = ''Hi'', button_clicked = True\<rparr>))) =
     [St_slider 50 250 128]
   \<and> st_slider 50 250 128 (Some 250) = 250"
proof -
  have ok: "slider_widget_ok 50 250
      (slider_widget \<lparr>slider_widget = Some 250, text_area_widget = ''Hi'', button_clicked = True\<rparr>)"
    by (simp add: slider_widget_ok_def)
  have called: "Call_translate ''Hi'' 250 \<in> set (fst (snd (main demo_lib demo_cache
      \<lparr>slider_widget = Some 250, text_area_widget = ''Hi'', button_clicked = True\<rparr>)))"
    by (simp add: main_unfold demo_runtime translate_unfold page_parts)
  have drawn: "snd (snd (main demo_lib demo_cache
      \<lparr>slider_widget = Some 250, text_area_widget = ''Hi'', button_clicked = True\<rparr>)) = Inr ()"
    by (simp add: main_unfold demo_runtime translate_unfold)
  from slider_bounds [OF ok, where lib = demo_lib and c = demo_cache and input_text = "''Hi''"
      and m = 250] called drawn
  show ?thesis by simp
qed

section \<open>The memoized translator over the runs of a process\<close>

lemma load_steps_append: "load_steps (xs @ ys) = load_steps xs + load_steps ys"
  by (simp add: load_steps_def)

lemma load_failures_append: "load_failures (xs @ ys) = load_failures xs + load_failures ys"
  by (simp add: load_failures_def)

lemma new_translator_counts:
  assumes "new_translator lib = (tr, out)"
  shows "load_steps tr = 1"
    and "load_failures tr = (case out of Inl e \<Rightarrow> 1 | Inr t \<Rightarrow> 0)"
  using assms
  by (auto simp: new_translator_def translator_init_def load_model_def Let_def
      load_steps_def load_failures_def is_load_step_def is_load_error_def
      split: sum.splits prod.splits)

lemma cache_same: "cached_translator c = Some t \<Longrightarrow> c\<lparr>cached_translator := Some t\<rparr> = c"
  by (cases c) simp

lemma main_cached:
  assumes "main lib c inp = (c2, tr, out)" and "cached_translator c = Some t"
  shows "c2 = c" and "load_steps tr = 0" and "load_failures tr = 0"
proof -
  have g: "get_translator lib c = (c, [], Inr t)"
    using assms(2) by (simp add: get_translator_def)
  from main_effects_cases [OF assms(1)] g
  consider
      (idle) "c2 = c" "tr = page_head @ [] @ page_widgets @ page_foot"
    | (warn) "c2 = c" "tr = page_head @ [] @ page_widgets @
          [St_warning '' Please enter some text to translate''] @ page_foot"
    | (call) t1 tr2 r where
        "translate lib t (text_area_widget inp)
           (st_slider 50 250 128 (slider_widget inp)) = (t1, tr2, r)"
        "c2 = c\<lparr>cached_translator := Some t1\<rparr>"
        "tr = page_head @ [] @ page_widgets @
          [St_spinner ''Translating...'',
           Call_translate (text_area_widget inp)
             (st_slider 50 250 128 (slider_widget inp))] @
          tr2 @ show_translation r @ page_foot"
    by auto
  then have "c2 = c \<and> load_steps tr = 0 \<and> load_failures tr = 0"
  proof cases
    case idle
    then show ?thesis
      by (simp add: load_steps_def load_failures_def page_quiet)
  next
    case warn
    then show ?thesis
      by (simp add: load_steps_def load_failures_def page_quiet is_load_step_def
          is_load_error_def)
  next
    case call
    from call(1) have "t1 = t" using translate_keeps_self [of lib t] by (metis fst_conv)
    with call(2) assms(2) have "c2 = c" by (simp add: cache_same)
    moreover have "load_steps tr = 0 \<and> load_failures tr = 0"
      by (simp add: call(3) load_steps_def load_failures_def page_quiet
          translate_quiet [OF call(1)] show_translation_quiet is_load_step_def
          is_load_error_def)
    ultimately show ?thesis by simp
  qed
  then show "c2 = c" and "load_steps tr = 0" and "load_failures tr = 0" by simp_all
qed

lemma main_load_failed:
  assumes "cached_translator c = None" and "new_translator lib = (tr1, Inl e)"
  shows "main lib c inp = (c, page_head @ tr1, Inl e)"
  using assms by (simp add: main_def get_translator_def)

lemma main_uncached:
  assumes "main lib c inp = (c2, tr, out)" and "cached_translator c = None"
  shows "load_steps tr = 1"
    and "(c2 = c \<and> load_failures tr = 1) \<or> (cached_translator c2 \<noteq> None \<and> load_failures tr = 0)"
proof -
  obtain tr1 r1 where n: "new_translator lib = (tr1, r1)" by (cases "new_translator lib")
  show "load_steps tr = 1"
    and "(c2 = c \<and> load_failures tr = 1) \<or> (cached_translator c2 \<noteq> None \<and> load_failures tr = 0)"
  proof (atomize (full), cases r1)
    case (Inl e)
    with n assms have "c2 = c" "tr = page_head @ tr1"
      by (simp_all add: main_load_failed)
    with new_translator_counts [OF n] Inl
    show "load_steps tr = 1 \<and>
      ((c2 = c \<and> load_failures tr = 1) \<or> (cached_translator c2 \<noteq> None \<and> load_failures tr = 0))"
      by (simp add: load_steps_append load_failures_append)
         (simp add: load_steps_def load_failures_def page_quiet)
  next
    case (Inr t)
    with n assms(2) have g: "get_translator lib c = (c\<lparr>cached_translator := Some t\<rparr>, tr1, Inr t)"
      by (simp add: get_translator_def)
    from new_translator_counts [OF n] Inr have k: "load_steps tr1 = 1" "load_failures tr1 = 0"
      by simp_all
    from main_effects_cases [OF assms(1)] g
    consider
        (idle) "c2 = c\<lparr>cached_translator := Some t\<rparr>"
          "tr = page_head @ tr1 @ page_widgets @ page_foot"
      | (warn) "c2 = c\<lparr>cached_translator := Some t\<rparr>"
          "tr = page_head @ tr1 @ page_widgets @
            [St_warning '' Please enter some text to translate''] @ page_foot"
      | (call) t1 tr2 r where
          "translate lib t (text_area_widget inp)
             (st_slider 50 250 128 (slider_widget inp)) = (t1, tr2, r)"
          "c2 = c\<lparr>cached_translator := Some t, cached_translator := Some t1\<rparr>"
          "tr = page_head @ tr1 @ page_widgets @
            [St_spinner ''Translating...'',
             Call_translate (text_area_widget inp)
               (st_slider 50 250 128 (slider_widget inp))] @
            tr2 @ show_translation r @ page_foot"
      by auto
    then show "load_steps tr = 1 \<and>
      ((c2 = c \<and> load_failures tr = 1) \<or> (cached_translator c2 \<noteq> None \<and> load_failures tr = 0))"
    proof cases
      case idle
      with k show ?thesis
        by (simp add: load_steps_append load_failures_append)
           (simp add: load_steps_def load_failures_def page_quiet)
    next
      case warn
      with k show ?thesis
        by (simp add: load_steps_append load_failures_append)
           (simp add: load_steps_def load_failures_def page_quiet is_load_step_def
              is_load_error_def)
    next
      case call
      with k show ?thesis
        by (simp add: load_steps_append load_failures_append)
           (simp add: load_steps_def load_failures_def page_quiet is_load_step_def
              is_load_error_def translate_quiet [OF call(1)] show_translation_quiet)
    qed
  qed
qed

lemma script_runs_cached:
  "cached_translator c = Some t \<Longrightarrow>
     fst (script_runs c rs) = c \<and> load_steps (snd (script_runs c rs)) = 0 \<and>
     load_failures (snd (script_runs c rs)) = 0"
proof (induction rs)
  case Nil
  then show ?case by (simp add: load_steps_def load_failures_def)
next
  case (Cons r rs)
  obtain lib inp where r: "r = (lib, inp)" by (cases r)
  obtain c2 tr out where m: "main lib c inp = (c2, tr, out)" by (cases "main lib c inp")
  from main_cached [OF m Cons.prems] have "c2 = c" "load_steps tr = 0" "load_failures tr = 0"
    by simp_all
  with Cons.IH [OF Cons.prems] r m show ?case
    by (cases "script_runs c rs") (simp add: load_steps_append load_failures_append)
qed

lemma script_runs_uncached:
  "cached_translator c = None \<Longrightarrow>
     load_steps (snd (script_runs c rs)) \<le> Suc (load_failures (snd (script_runs c rs))) \<and>
     (rs \<noteq> [] \<longrightarrow> 1 \<le> load_steps (snd (script_runs c rs)))"
proof (induction rs arbitrary: c)
  case Nil
  then show ?case by (simp add: load_steps_def load_failures_def)
next
  case (Cons r rs)
  obtain lib inp where r: "r = (lib, inp)" by (cases r)
  obtain c2 tr out where m: "main lib c inp = (c2, tr, out)" by (cases "main lib c inp")
  have split: "snd (script_runs c (r # rs)) = tr @ snd (script_runs c2 rs)"
    using r m by (simp split: prod.splits)
  from main_uncached [OF m Cons.prems]
  have one: "load_steps tr = 1"
    and alt: "(c2 = c \<and> load_failures tr = 1) \<or>
              (cached_translator c2 \<noteq> None \<and> load_failures tr = 0)"
    by simp_all
  from alt show ?case
  proof
    assume a: "c2 = c \<and> load_failures tr = 1"
    with Cons.prems have "cached_translator c2 = None" by simp
    from Cons.IH [OF this] one a show ?thesis
      by (simp add: split load_steps_append load_failures_append)
  next
    assume a: "cached_translator c2 \<noteq> None \<and> load_failures tr = 0"
    then obtain t where "cached_translator c2 = Some t" by auto
    from script_runs_cached [OF this, of rs] one a show ?thesis
      by (simp add: split load_steps_append load_failures_append)
  qed
qed

text \<open>
  Claim C8, as the program has it. The translator object is created by the first run
  that needs it and memoized when its load succeeds. From then on no run executes the
  load step again and the memo keeps the same object, however many requests follow; so
  over any sequence of runs the load steps executed exceed the failed ones by one at
  most, which is to say that at most one load per process succeeds. A load that raises
  memoizes nothing, and the next run executes the load step again.
\<close>

theorem load_memoized:
  "(cached_translator c \<noteq> None \<longrightarrow>
      fst (script_runs c rs) = c \<and> load_steps (snd (script_runs c rs)) = 0)
   \<and> (cached_translator c = None \<and> rs \<noteq> [] \<longrightarrow> 1 \<le> load_steps (snd (script_runs c rs)))
   \<and> load_steps (snd (script_runs c rs)) \<le> Suc (load_failures (snd (script_runs c rs)))"
proof (cases "cached_translator c")
  case None
  with script_runs_uncached [OF None, of rs] show ?thesis by simp
next
  case (Some t)
  with script_runs_cached [OF Some, of rs] show ?thesis by simp
qed

theorem load_memoized_witness:
  "fst (script_runs demo_cache
      [(demo_lib, \<lparr>slider_widget = None, text_area_widget = ''Hi'', button_clicked = True\<rparr>),
       (offline_lib, \<lparr>slider_widget = None, text_area_widget = [], button_clicked = False\<rparr>)]) =
     demo_cache
   \<and> load_steps (snd (script_runs demo_cache
      [(demo_lib, \<lparr>slider_widget = None, text_area_widget = ''Hi'', button_clicked = True\<rparr>),
       (offline_lib, \<lparr>slider_widget = None, text_area_widget = [], button_clicked = False\<rparr>)])) = 0
   \<and> load_steps (snd (script_runs empty_cache
      [(demo_lib, \<lparr>slider_widget = None, text_area_widget = ''Hi'', button_clicked = True\<rparr>),
       (demo_lib, \<lparr>slider_widget = None, text_area_widget = ''Hi'', button_clicked = True\<rparr>)])) = 1"
proof -
  have cached: "cached_translator demo_cache \<noteq> None" by (simp add: demo_cache_def)
  have empty: "cached_translator empty_cache = None \<and>
      [(demo_lib, \<lparr>slider_widget = None, text_area_widget = ''Hi'', button_clicked = True\<rparr>),
       (demo_lib, \<lparr>slider_widget = None, text_area_widget = ''Hi'', button_clicked = True\<rparr>)] \<noteq> []"
    by (simp add: empty_cache_def)
  have none_failed: "load_failures (snd (script_runs empty_cache
      [(demo_lib, \<lparr>slider_widget = None, text_area_widget = ''Hi'', button_clicked = True\<rparr>),
       (demo_lib, \<lparr>slider_widget = None, text_area_widget = ''Hi'', button_clicked = True\<rparr>)])) = 0"
    by (simp add: main_unfold demo_runtime translate_unfold page_parts trace_tests
        load_failures_def)
  from load_memoized [of demo_cache
      "[(demo_lib, \<lparr>slider_widget = None, text_area_widget = ''Hi'', button_clicked = True\<rparr>),
       (offline_lib, \<lparr>slider_widget = None, text_area_widget = [], button_clicked = False\<rparr>)]"]
    cached
  have a: "fst (script_runs demo_cache
      [(demo_lib, \<lparr>slider_widget = None, text_area_widget = ''Hi'', button_clicked = True\<rparr>),
       (offline_lib, \<lparr>slider_widget = None, text_area_widget = [], button_clicked = False\<rparr>)]) =
     demo_cache
   \<and> load_steps (snd (script_runs demo_cache
      [(demo_lib, \<lparr>slider_widget = None, text_area_widget = ''Hi'', button_clicked = True\<rparr>),
       (offline_lib, \<lparr>slider_widget = None, text_area_widget = [], button_clicked = False\<rparr>)])) = 0"
    by blast
  from load_memoized [of empty_cache
      "[(demo_lib, \<lparr>slider_widget = None, text_area_widget = ''Hi'', button_clicked = True\<rparr>),
       (demo_lib, \<lparr>slider_widget = None, text_area_widget = ''Hi'', button_clicked = True\<rparr>)]"]
    empty none_failed
  have "load_steps (snd (script_runs empty_cache
      [(demo_lib, \<lparr>slider_widget = None, text_area_widget = ''Hi'', button_clicked = True\<rparr>),
       (demo_lib, \<lparr>slider_widget = None, text_area_widget = ''Hi'', button_clicked = True\<rparr>)])) = 1"
    by linarith
  with a show ?thesis by blast
qed

text \<open>
  Two runs with the model repository out of reach: the load step is executed in each.
\<close>

theorem failed_load_is_repeated:
  "load_steps (snd (script_runs empty_cache
      [(offline_lib, \<lparr>slider_widget = None, text_area_widget = [], button_clicked = False\<rparr>),
       (offline_lib, \<lparr>slider_widget = None, text_area_widget = [], button_clicked = False\<rparr>)])) = 2"
  by (simp add: main_unfold demo_runtime page_parts trace_tests load_steps_def)


section \<open>The program with the tokenizer class it loads\<close>

lemma urdu_not_fairseq: "''ur_PK'' \<notin> set fairseq_language_codes"
  by (simp add: fairseq_language_codes_def)

lemma mbart_tokenizer_table:
  "dom (lang_code_to_id mbart_tokenizer) = set fairseq_language_codes"
  by (simp add: mbart_tokenizer_def fairseq_language_codes_def dom_map_of_zip)


lemma mbart_tokenizer_english: "lang_code_to_id mbart_tokenizer ''en_XX'' = Some 250004"
  by (simp add: mbart_tokenizer_def fairseq_language_codes_def upt_rec)

lemma mbart_lib_loads: "loads_mbart_tokenizer mbart_lib"
  by (simp add: loads_mbart_tokenizer_def mbart_lib_def mbart_tokenizer_table)

lemma new_translator_mbart:
  "new_translator mbart_lib =
     ([Tokenizer_from_pretrained ''facebook/mbart-large-50-many-to-many-mmt'',
       Model_from_pretrained ''facebook/mbart-large-50-many-to-many-mmt''],
      Inr mbart_translator)"
  by (simp add: new_translator_def translator_init_def load_model_def Let_def
      mbart_lib_def demo_lib_def mbart_translator_def)

lemma loaded_unmarked:
  assumes "loads_mbart_tokenizer lib" and "new_translator lib = (tr, Inr t)"
  shows "unmarked t"
proof -
  from assms(2) obtain tk where
    tk: "tokenizer_from_pretrained lib ''facebook/mbart-large-50-many-to-many-mmt'' = Inr tk"
    and t: "tokenizer t = Some (tk\<lparr>src_lang := ''en_XX'', tgt_lang := ''ur_PK''\<rparr>)"
    by (auto simp: new_translator_def translator_init_def load_model_def Let_def
        split: sum.splits prod.splits)
  from assms(1) tk have "dom (lang_code_to_id tk) = set fairseq_language_codes"
    unfolding loads_mbart_tokenizer_def by blast
  with urdu_not_fairseq have "lang_code_to_id tk ''ur_PK'' = None" by (metis domIff)
  with t show ?thesis by (simp add: unmarked_def)
qed

lemma translate_unmarked:
  assumes "unmarked t" and "translate lib t text ml = (t1, tr, r)"
  shows "r = None" and "filter is_generate tr = []"
    and "length (filter is_translation_error tr) = 1"
  using assms
  by (auto simp: unmarked_def translate_def translate_try_def Let_def is_generate_def
      is_translation_error_def split: option.splits sum.splits list.splits prod.splits)

text \<open>
  Claim C1. The claim says that \<^verbatim>\<open>translate\<close> tokenizes, generates with the first token
  forced to the marker of Urdu, decodes and returns the first candidate. The program
  attempts exactly that (\<open>translate_steps\<close>) and misses: the translator it builds has
  a tokenizer of the class \<^verbatim>\<open>MBartTokenizer\<close>, whose table has no \<^verbatim>\<open>ur_PK\<close>. For
  every text and every \<^verbatim>\<open>max_length\<close> the call returns \<^verbatim>\<open>None\<close> and never reaches
  generation; when the tokenizer call returns, the lookup of line 39 raises
  \<^verbatim>\<open>KeyError\<close> and the only effects are the tokenizer call and the error banner.
\<close>

theorem translate_never_generates:
  assumes "loads_mbart_tokenizer lib" and "new_translator lib = (tr0, Inr t)"
  shows "snd (snd (translate lib t text max_length)) = None
       \<and> filter is_generate (fst (snd (translate lib t text max_length))) = []
       \<and> (\<forall>tk encoded.
            tokenizer t = Some tk \<and>
            tokenizer_call lib tk text (tokenizer_kwargs max_length) = Inr encoded \<longrightarrow>
            translate lib t text max_length =
              (t,
               [Tokenizer_call text (tokenizer_kwargs max_length),
                St_error (''Translation error: '' @ exc_str (key_error ''ur_PK''))],
               None))"
proof -
  have u: "unmarked t" using loaded_unmarked [OF assms] .
  obtain t1 tr r where tr: "translate lib t text max_length = (t1, tr, r)"
    by (cases "translate lib t text max_length")
  from translate_unmarked(1,2) [OF u tr] tr
  have a: "snd (snd (translate lib t text max_length)) = None
       \<and> filter is_generate (fst (snd (translate lib t text max_length))) = []"
    by simp
  from new_translator_loaded [OF assms(2)] obtain md where md: "model t = Some md" by blast
  have b: "translate lib t text max_length =
              (t,
               [Tokenizer_call text (tokenizer_kwargs max_length),
                St_error (''Translation error: '' @ exc_str (key_error ''ur_PK''))],
               None)"
    if "tokenizer t = Some tk"
      and "tokenizer_call lib tk text (tokenizer_kwargs max_length) = Inr encoded"
    for tk encoded
    using that u md by (simp add: unmarked_def translate_def translate_try_def)
  from a b show ?thesis by blast
qed

theorem translate_never_generates_witness:
  "translate mbart_lib mbart_translator ''Hello'' 128 =
     (mbart_translator,
      [Tokenizer_call ''Hello'' (tokenizer_kwargs 128),
       St_error (''Translation error: '' @ [CHR 0x27] @ ''ur_PK'' @ [CHR 0x27])],
      None)
   \<and> filter is_generate
       (fst (snd (translate mbart_lib mbart_translator ''Hello'' 128))) = []"
proof -
  have tk: "tokenizer mbart_translator =
        Some (mbart_tokenizer\<lparr>src_lang := ''en_XX'', tgt_lang := ''ur_PK''\<rparr>)
      \<and> tokenizer_call mbart_lib (mbart_tokenizer\<lparr>src_lang := ''en_XX'', tgt_lang := ''ur_PK''\<rparr>)
          ''Hello'' (tokenizer_kwargs 128) =
        Inr \<lparr>input_ids = [[72, 101, 108, 108, 111]],
             attention_mask = [[1, 1, 1, 1, 1]]\<rparr>"
    by (simp add: mbart_translator_def mbart_lib_def demo_lib_def tokenizer_kwargs_def)
  from translate_never_generates [OF mbart_lib_loads new_translator_mbart,
      of "''Hello''" 128] tk
  show ?thesis by (simp add: key_error_def is_generate_def)
qed



text \<open>
  Where \<^verbatim>\<open>max_length\<close> goes: every tokenizer call of \<^verbatim>\<open>translate\<close> has it as the
  truncation bound, and every call of \<^verbatim>\<open>generate\<close> as the cap.
\<close>

lemma translate_passes_max_length:
  assumes "translate lib self text max_length = (self1, tr, r)"
  shows "(Tokenizer_call t kw \<in> set tr \<longrightarrow>
            t = text \<and> padding kw \<and> truncation kw \<and> enc_max_length kw = max_length)
       \<and> (Generate ids gkw \<in> set tr \<longrightarrow> gen_max_length gkw = max_length)"
  using assms
  by (auto simp: translate_def translate_try_def Let_def tokenizer_kwargs_def
      generation_kwargs_def split: option.splits sum.splits list.splits prod.splits)







end
